theory Spec2Isabelle
  imports Complex_Main
begin

section \<open>Input x Gradient attribution: \<^verbatim>\<open>captum/attr/_core/input_x_gradient.py\<close>\<close>

text \<open>
  The development embeds \<^verbatim>\<open>InputXGradient.attribute\<close>. The tensors of the caller are
  objects on a heap, addressed by references, because the method mutates their
  \<^verbatim>\<open>requires_grad\<close> flag and the same tensor may occur twice in \<^verbatim>\<open>inputs\<close>. The gradient
  capability \<^verbatim>\<open>self.gradient_func\<close> and the forward function are parameters. An exception
  is a value \<open>Inl e\<close>; the heap is returned also then, since what was mutated before a
  raise stays mutated.
\<close>

subsection \<open>Tensor values\<close>

text \<open>
  The elements of a tensor that can require a gradient are floating-point numbers. A
  finite element is modelled by the rational number it denotes (rounding and overflow
  are not modelled); the three non-finite values are kept, since the product of the
  library treats them specially.
\<close>

datatype float_val = Fin rat | PInf | NInf | NaN

fun is_finite :: "float_val \<Rightarrow> bool" where
  "is_finite (Fin a) = True"
| "is_finite PInf = False"
| "is_finite NInf = False"
| "is_finite NaN = False"

text \<open>The product of two elements: signs combine, and zero times an infinity is NaN.\<close>

fun inf_times :: "bool \<Rightarrow> rat \<Rightarrow> float_val" where
  "inf_times positive a =
     (if a = 0 then NaN else if (0 < a) = positive then PInf else NInf)"

fun fmul :: "float_val \<Rightarrow> float_val \<Rightarrow> float_val" where
  "fmul NaN y = NaN"
| "fmul x NaN = NaN"
| "fmul (Fin a) (Fin b) = Fin (a * b)"
| "fmul (Fin a) PInf = inf_times True a"
| "fmul (Fin a) NInf = inf_times False a"
| "fmul PInf (Fin b) = inf_times True b"
| "fmul NInf (Fin b) = inf_times False b"
| "fmul PInf PInf = PInf"
| "fmul PInf NInf = NInf"
| "fmul NInf PInf = NInf"
| "fmul NInf NInf = PInf"

text \<open>A tensor value: its shape and its elements in row-major order.\<close>

record tensor =
  shape :: "nat list"
  elems :: "float_val list"

text \<open>
  The exceptions of a call: the two that the model itself can raise, and any other
  exception \<open>Other e\<close>, raised by the gradient capability or, inside it, by the forward
  function.
\<close>

datatype 'e error =
    RuntimeError  \<comment> \<open>the library's \<^verbatim>\<open>*\<close> on shapes that cannot be broadcast\<close>
  | IndexError    \<comment> \<open>indexing an empty tuple\<close>
  | Other 'e

text \<open>
  The library's broadcasting rule, on the reversed shapes (trailing dimension first):
  two sizes are compatible when they are equal or one of them is 1, and a missing
  dimension counts as 1.
\<close>

fun broadcast_rev :: "nat list \<Rightarrow> nat list \<Rightarrow> nat list option" where
  "broadcast_rev [] ys = Some ys"
| "broadcast_rev xs [] = Some xs"
| "broadcast_rev (x # xs) (y # ys) =
     (if x = y \<or> y = 1 then map_option (Cons x) (broadcast_rev xs ys)
      else if x = 1 then map_option (Cons y) (broadcast_rev xs ys)
      else None)"

definition broadcast_shapes :: "nat list \<Rightarrow> nat list \<Rightarrow> nat list option" where
  "broadcast_shapes s t = map_option rev (broadcast_rev (rev s) (rev t))"

text \<open>
  \<open>expand s t xs\<close> repeats the elements \<open>xs\<close> of a tensor of shape \<open>s\<close> to the
  shape \<open>t\<close> of the same rank: a dimension of size 1 is repeated to the size asked for.
\<close>

fun expand :: "nat list \<Rightarrow> nat list \<Rightarrow> 'a list \<Rightarrow> 'a list" where
  "expand (d # ds) (e # es) xs =
     (let n = prod_list ds;
          rows = map (\<lambda>i. expand ds es (take n (drop (i * n) xs))) [0..<d]
      in if d = e then concat rows else concat (replicate e (concat rows)))"
| "expand ds es xs = xs"

definition pad_shape :: "nat \<Rightarrow> nat list \<Rightarrow> nat list" where
  "pad_shape k s = replicate (k - length s) 1 @ s"

text \<open>
  The elementwise product \<^verbatim>\<open>input * gradient\<close> of the tensor library, which is not
  code of this repository: a new tensor; \<open>None\<close> when the shapes cannot be broadcast,
  where the library raises \<^verbatim>\<open>RuntimeError\<close>. Two tensors of one shape are multiplied
  element by element; this is also what broadcasting gives for them (lemma
  \<open>tensor_mul_same_shape_broadcast\<close> below).
\<close>

definition tensor_mul :: "tensor \<Rightarrow> tensor \<Rightarrow> tensor option" where
  "tensor_mul a b =
     (if shape a = shape b
      then Some \<lparr>shape = shape a, elems = map2 fmul (elems a) (elems b)\<rparr>
      else case broadcast_shapes (shape a) (shape b) of
             None \<Rightarrow> None
           | Some s \<Rightarrow>
               Some \<lparr>shape = s,
                    elems = map2 fmul
                      (expand (pad_shape (length s) (shape a)) s (elems a))
                      (expand (pad_shape (length s) (shape b)) s (elems b))\<rparr>)"

subsection \<open>The heap of tensor objects\<close>

record tensor_obj =
  data :: tensor
  requires_grad :: bool

type_synonym ref = nat
type_synonym heap = "ref \<Rightarrow> tensor_obj"

text \<open>What the caller passes as \<^verbatim>\<open>inputs\<close> and gets back: one tensor, or a tuple.\<close>

datatype 'a tensor_or_tuple = Single 'a | Tuple "'a list"

fun is_tuple :: "'a tensor_or_tuple \<Rightarrow> bool" where
  "is_tuple (Single x) = False"
| "is_tuple (Tuple xs) = True"

fun items :: "'a tensor_or_tuple \<Rightarrow> 'a list" where
  "items (Single x) = [x]"
| "items (Tuple xs) = xs"

subsection \<open>The helpers imported from \<^verbatim>\<open>_utils\<close>\<close>

text \<open>
  Modelled from the spec: \<^verbatim>\<open>format_input\<close> of \<^verbatim>\<open>_utils/common.py\<close>, which is not among the
  sources. The spec: wrap a bare tensor into a one-element sequence; pass a tuple
  through unchanged.
\<close>

fun format_input :: "'a tensor_or_tuple \<Rightarrow> 'a list" where
  "format_input (Single x) = [x]"
| "format_input (Tuple xs) = xs"

text \<open>
  Modelled from the spec: \<^verbatim>\<open>apply_gradient_requirements\<close> of \<^verbatim>\<open>_utils/gradient.py\<close>, which
  is not among the sources. The spec: for each tensor of the collection, in order,
  capture its current differentiability flag, then force tracking on; the captured
  flags are the mask.
\<close>

fun apply_gradient_requirements :: "heap \<Rightarrow> ref list \<Rightarrow> bool list \<times> heap" where
  "apply_gradient_requirements h [] = ([], h)"
| "apply_gradient_requirements h (r # rs) =
     (let g = requires_grad (h r);
          (gradient_mask, h') = apply_gradient_requirements (h(r := (h r)\<lparr>requires_grad := True\<rparr>)) rs
      in (g # gradient_mask, h'))"

text \<open>
  Modelled from the spec: \<^verbatim>\<open>undo_gradient_requirements\<close> of \<^verbatim>\<open>_utils/gradient.py\<close>, which
  is not among the sources. The spec: restore each flag with the mask; only a flag that
  was off before is reset to off, a flag that was on stays as it is.
\<close>

fun undo_gradient_requirements :: "heap \<Rightarrow> ref list \<Rightarrow> bool list \<Rightarrow> heap" where
  "undo_gradient_requirements h (r # rs) (g # gradient_mask) =
     undo_gradient_requirements
       (if g then h else h(r := (h r)\<lparr>requires_grad := False\<rparr>)) rs gradient_mask"
| "undo_gradient_requirements h rs gradient_mask = h"

text \<open>
  Modelled from the spec: \<^verbatim>\<open>_format_attributions\<close> of \<^verbatim>\<open>_utils/common.py\<close>, which is not
  among the sources. The spec: if \<^verbatim>\<open>is_inputs_tuple\<close> is false, return the single element;
  otherwise return the full ordered sequence. Taking the element of an empty tuple
  raises.
\<close>

fun format_attributions :: "bool \<Rightarrow> 'a list \<Rightarrow> 'e error + 'a tensor_or_tuple" where
  "format_attributions True attributions = Inr (Tuple attributions)"
| "format_attributions False [] = Inl IndexError"
| "format_attributions False (a # attributions) = Inr (Single a)"

subsection \<open>\<^verbatim>\<open>InputXGradient.attribute\<close>\<close>

text \<open>
  The generator of lines 83 to 85: the pairs of \<^verbatim>\<open>zip(inputs, gradients)\<close> are multiplied
  in order, and the first product that raises ends the loop (the value \<open>None\<close>).
\<close>

fun multiply_all :: "(tensor \<times> tensor) list \<Rightarrow> tensor list option" where
  "multiply_all [] = Some []"
| "multiply_all ((input, gradient) # rest) =
     (case tensor_mul input gradient of
        None \<Rightarrow> None
      | Some attribution \<Rightarrow>
          (case multiply_all rest of
             None \<Rightarrow> None
           | Some attributions \<Rightarrow> Some (attribution # attributions)))"

text \<open>
  What a call leaves behind: the value returned or the exception raised, and the heap.
\<close>

record 'e outcome =
  returned :: "'e error + tensor tensor_or_tuple"
  heap_after :: heap

text \<open>
  The gradient capability gets the forward function, the heap, the input collection,
  the target and the additional arguments; it raises an exception or returns the
  gradients, as tensor values, and it leaves a heap.
\<close>

type_synonym ('f, 't, 'x, 'e) gradient_func =
  "'f \<Rightarrow> heap \<Rightarrow> ref list \<Rightarrow> 't \<Rightarrow> 'x \<Rightarrow> ('e error + tensor list) \<times> heap"

definition attribute ::
  "('f, 't, 'x, 'e) gradient_func \<Rightarrow> 'f \<Rightarrow> heap \<Rightarrow> ref tensor_or_tuple \<Rightarrow> 't \<Rightarrow> 'x \<Rightarrow> 'e outcome"
where
  "attribute gradient_func forward_func h inputs target additional_forward_args =
     (let is_inputs_tuple = is_tuple inputs;
          inputs = format_input inputs;
          (gradient_mask, h1) = apply_gradient_requirements h inputs
      in case gradient_func forward_func h1 inputs target additional_forward_args of
           (Inl e, h2) \<Rightarrow> \<lparr>returned = Inl e, heap_after = h2\<rparr>
         | (Inr gradients, h2) \<Rightarrow>
             (case multiply_all (zip (map (\<lambda>r. data (h2 r)) inputs) gradients) of
                None \<Rightarrow> \<lparr>returned = Inl RuntimeError, heap_after = h2\<rparr>
              | Some attributions \<Rightarrow>
                  \<lparr>returned = format_attributions is_inputs_tuple attributions,
                   heap_after = undo_gradient_requirements h2 inputs gradient_mask\<rparr>))"

subsection \<open>The call, step by step\<close>

text \<open>
  To state in which order a call goes through its collaborators, the same lines are
  run on a world that holds, beside the heap, the log of the collaborators entered so
  far. Nothing but a collaborator writes to the log: each one appends its own name when
  it is entered, once for each time it is entered, and then does its work on the heap
  of the world.
\<close>

datatype stage =
    Format_input
  | Apply_gradient_requirements
  | Gradient_func
  | Multiply
  | Undo_gradient_requirements
  | Format_attributions

record world =
  tensors :: heap
  entered :: "stage list"

definition enter :: "stage \<Rightarrow> world \<Rightarrow> world" where
  "enter c w = w\<lparr>entered := entered w @ [c]\<rparr>"

definition do_format_input :: "'a tensor_or_tuple \<Rightarrow> world \<Rightarrow> 'a list \<times> world" where
  "do_format_input inputs w = (format_input inputs, enter Format_input w)"

definition do_apply_gradient_requirements :: "ref list \<Rightarrow> world \<Rightarrow> bool list \<times> world" where
  "do_apply_gradient_requirements inputs w =
     (let w' = enter Apply_gradient_requirements w;
          (gradient_mask, h') = apply_gradient_requirements (tensors w') inputs
      in (gradient_mask, w'\<lparr>tensors := h'\<rparr>))"

definition do_gradient_func ::
  "('f, 't, 'x, 'e) gradient_func \<Rightarrow> 'f \<Rightarrow> ref list \<Rightarrow> 't \<Rightarrow> 'x \<Rightarrow> world
     \<Rightarrow> ('e error + tensor list) \<times> world"
where
  "do_gradient_func gradient_func forward_func inputs target additional_forward_args w =
     (let w' = enter Gradient_func w;
          (answer, h') = gradient_func forward_func (tensors w') inputs target
                           additional_forward_args
      in (answer, w'\<lparr>tensors := h'\<rparr>))"

definition do_multiply :: "ref list \<Rightarrow> tensor list \<Rightarrow> world \<Rightarrow> tensor list option \<times> world" where
  "do_multiply inputs gradients w =
     (let w' = enter Multiply w
      in (multiply_all (zip (map (\<lambda>r. data (tensors w' r)) inputs) gradients), w'))"

definition do_undo_gradient_requirements :: "ref list \<Rightarrow> bool list \<Rightarrow> world \<Rightarrow> world" where
  "do_undo_gradient_requirements inputs gradient_mask w =
     (let w' = enter Undo_gradient_requirements w
      in w'\<lparr>tensors := undo_gradient_requirements (tensors w') inputs gradient_mask\<rparr>)"

definition do_format_attributions ::
  "bool \<Rightarrow> 'a list \<Rightarrow> world \<Rightarrow> ('e error + 'a tensor_or_tuple) \<times> world"
where
  "do_format_attributions is_inputs_tuple attributions w =
     (format_attributions is_inputs_tuple attributions, enter Format_attributions w)"

text \<open>Lines 74 to 87 on a world; the log is empty at the start of the call.\<close>

definition attribute_steps ::
  "('f, 't, 'x, 'e) gradient_func \<Rightarrow> 'f \<Rightarrow> heap \<Rightarrow> ref tensor_or_tuple \<Rightarrow> 't \<Rightarrow> 'x
     \<Rightarrow> ('e error + tensor tensor_or_tuple) \<times> world"
where
  "attribute_steps gradient_func forward_func h inputs target additional_forward_args =
     (let is_inputs_tuple = is_tuple inputs;
          (inputs, w0) = do_format_input inputs \<lparr>tensors = h, entered = []\<rparr>;
          (gradient_mask, w1) = do_apply_gradient_requirements inputs w0
      in case do_gradient_func gradient_func forward_func inputs target
                additional_forward_args w1 of
           (Inl e, w2) \<Rightarrow> (Inl e, w2)
         | (Inr gradients, w2) \<Rightarrow>
             (case do_multiply inputs gradients w2 of
                (None, w3) \<Rightarrow> (Inl RuntimeError, w3)
              | (Some attributions, w3) \<Rightarrow>
                  do_format_attributions is_inputs_tuple attributions
                    (do_undo_gradient_requirements inputs gradient_mask w3)))"

subsection \<open>Names for the statements\<close>

text \<open>
  The call of lines 79 to 81, the only call of the gradient capability: its arguments
  are the forward function, the heap after \<^verbatim>\<open>apply_gradient_requirements\<close>, the formatted
  inputs, the target and the additional arguments.
\<close>

definition gradient_call ::
  "('f, 't, 'x, 'e) gradient_func \<Rightarrow> 'f \<Rightarrow> heap \<Rightarrow> ref tensor_or_tuple \<Rightarrow> 't \<Rightarrow> 'x
     \<Rightarrow> ('e error + tensor list) \<times> heap"
where
  "gradient_call gradient_func forward_func h inputs target additional_forward_args =
     gradient_func forward_func
       (snd (apply_gradient_requirements h (format_input inputs)))
       (format_input inputs) target additional_forward_args"

text \<open>The products of lines 83 to 85, on the heap \<open>h2\<close> that the capability left.\<close>

definition products :: "heap \<Rightarrow> ref list \<Rightarrow> tensor list \<Rightarrow> tensor list option" where
  "products h2 inputs gradients = multiply_all (zip (map (\<lambda>r. data (h2 r)) inputs) gradients)"

text \<open>The six collaborators in the order of the lines 76 to 87.\<close>

definition pipeline :: "stage list" where
  "pipeline = [Format_input, Apply_gradient_requirements, Gradient_func, Multiply,
               Undo_gradient_requirements, Format_attributions]"

text \<open>A tensor whose elements are all zero, and one whose elements are all finite.\<close>

definition all_zero :: "tensor \<Rightarrow> bool" where
  "all_zero a = list_all (\<lambda>x. x = Fin 0) (elems a)"

definition all_finite :: "tensor \<Rightarrow> bool" where
  "all_finite a = list_all is_finite (elems a)"

text \<open>
  The contract of the gradient capability: one gradient for each input, of the shape
  of that input on the heap \<open>h2\<close> that the capability left.
\<close>

definition shape_matched :: "heap \<Rightarrow> ref list \<Rightarrow> tensor list \<Rightarrow> bool" where
  "shape_matched h2 inputs ts = list_all2 (\<lambda>r g. shape g = shape (data (h2 r))) inputs ts"

subsection \<open>Concrete calls\<close>

text \<open>
  The example of the spec: one input \<open>[1, 2, 3]\<close>, the forward function its sum, whose
  gradient is \<open>[1, 1, 1]\<close>. On the heap, the tensor at reference 1 tracks gradients
  already; no other tensor does.
\<close>

definition vec :: "rat list \<Rightarrow> tensor" where
  "vec xs = \<lparr>shape = [length xs], elems = map Fin xs\<rparr>"

definition example_heap :: heap where
  "example_heap r = \<lparr>data = vec [1, 2, 3], requires_grad = (r = 1)\<rparr>"

definition ones_like :: "tensor \<Rightarrow> tensor" where
  "ones_like a = \<lparr>shape = shape a, elems = map (\<lambda>x. Fin 1) (elems a)\<rparr>"

definition zeros_like :: "tensor \<Rightarrow> tensor" where
  "zeros_like a = \<lparr>shape = shape a, elems = map (\<lambda>x. Fin 0) (elems a)\<rparr>"

definition sum_gradient_func :: "(unit, 't, 'x, string) gradient_func" where
  "sum_gradient_func forward_func h inputs target additional_forward_args =
     (Inr (map (\<lambda>r. ones_like (data (h r))) inputs), h)"

text \<open>A forward function that does not depend on its inputs has the gradient zero.\<close>

definition constant_gradient_func :: "(unit, 't, 'x, string) gradient_func" where
  "constant_gradient_func forward_func h inputs target additional_forward_args =
     (Inr (map (\<lambda>r. zeros_like (data (h r))) inputs), h)"

text \<open>A capability that raises, as the real one does when a target is needed and absent.\<close>

definition failing_gradient_func :: "(unit, 't, 'x, string) gradient_func" where
  "failing_gradient_func forward_func h inputs target additional_forward_args =
     (Inl (Other ''target missing''), h)"

text \<open>A capability that breaks its contract: it returns no gradient at all.\<close>

definition empty_gradient_func :: "(unit, 't, 'x, string) gradient_func" where
  "empty_gradient_func forward_func h inputs target additional_forward_args = (Inr [], h)"

text \<open>A capability that returns only one gradient, whatever the number of inputs.\<close>

definition short_gradient_func :: "(unit, 't, 'x, string) gradient_func" where
  "short_gradient_func forward_func h inputs target additional_forward_args =
     (Inr [vec [1, 1, 1]], h)"

text \<open>A capability that returns a gradient of a shape that cannot be broadcast.\<close>

definition misshapen_gradient_func :: "(unit, 't, 'x, string) gradient_func" where
  "misshapen_gradient_func forward_func h inputs target additional_forward_args =
     (Inr [vec [1, 1]], h)"

text \<open>
  A mock capability that captures its arguments: it raises an exception that carries
  them.
\<close>

definition capturing_gradient_func ::
  "('f, 't, 'x, 'f \<times> heap \<times> ref list \<times> 't \<times> 'x) gradient_func"
where
  "capturing_gradient_func forward_func h inputs target additional_forward_args =
     (Inl (Other (forward_func, h, inputs, target, additional_forward_args)), h)"

text \<open>A heap whose tensors hold an infinity.\<close>

definition infinite_heap :: heap where
  "infinite_heap r = \<lparr>data = \<lparr>shape = [1], elems = [PInf]\<rparr>, requires_grad = False\<rparr>"

section \<open>Properties\<close>

subsection \<open>The flag helpers\<close>

lemma apply_length: "length (fst (apply_gradient_requirements h rs)) = length rs"
  by (induction rs arbitrary: h) (simp_all add: Let_def case_prod_beta)

lemma apply_data: "data (snd (apply_gradient_requirements h rs) r) = data (h r)"
  by (induction rs arbitrary: h) (simp_all add: Let_def case_prod_beta)

lemma apply_flag:
  "requires_grad (snd (apply_gradient_requirements h rs) r) = (r \<in> set rs \<or> requires_grad (h r))"
  by (induction rs arbitrary: h) (simp_all add: Let_def case_prod_beta)

lemma apply_frame: "r \<notin> set rs \<Longrightarrow> snd (apply_gradient_requirements h rs) r = h r"
  by (induction rs arbitrary: h) (simp_all add: Let_def case_prod_beta)

text \<open>
  The mask holds \<open>False\<close> at some occurrence of \<open>r\<close> exactly when \<open>r\<close> is an input whose
  flag was off: a later occurrence of the same tensor records the flag already forced.
\<close>

lemma apply_mask:
  "(\<forall>p \<in> set (zip rs (fst (apply_gradient_requirements h rs))). fst p = r \<longrightarrow> snd p)
     = (r \<in> set rs \<longrightarrow> requires_grad (h r))"
proof (induction rs arbitrary: h)
  case Nil
  show ?case by simp
next
  case (Cons r0 rs)
  let ?h' = "h(r0 := (h r0)\<lparr>requires_grad := True\<rparr>)"
  have flag: "requires_grad (?h' r) = (r = r0 \<or> requires_grad (h r))" by simp
  have "(\<forall>p \<in> set (zip (r0 # rs) (fst (apply_gradient_requirements h (r0 # rs)))). fst p = r \<longrightarrow> snd p)
      = ((r0 = r \<longrightarrow> requires_grad (h r0)) \<and>
         (\<forall>p \<in> set (zip rs (fst (apply_gradient_requirements ?h' rs))). fst p = r \<longrightarrow> snd p))"
    by (simp add: Let_def case_prod_beta)
  also have "\<dots> = ((r0 = r \<longrightarrow> requires_grad (h r0)) \<and> (r \<in> set rs \<longrightarrow> requires_grad (?h' r)))"
    by (simp only: Cons.IH)
  also have "\<dots> = (r \<in> set (r0 # rs) \<longrightarrow> requires_grad (h r))"
    unfolding flag by auto
  finally show ?case .
qed

lemma undo_data: "data (undo_gradient_requirements h rs m r) = data (h r)"
  by (induction h rs m rule: undo_gradient_requirements.induct) auto

lemma undo_frame: "r \<notin> set rs \<Longrightarrow> undo_gradient_requirements h rs m r = h r"
  by (induction h rs m rule: undo_gradient_requirements.induct) auto

lemma undo_flag:
  "requires_grad (undo_gradient_requirements h rs m r)
     = (requires_grad (h r) \<and> (\<forall>p \<in> set (zip rs m). fst p = r \<longrightarrow> snd p))"
  by (induction h rs m rule: undo_gradient_requirements.induct) auto

lemma undo_apply_flag:
  "requires_grad (undo_gradient_requirements h2 rs (fst (apply_gradient_requirements h rs)) r)
     = (requires_grad (h2 r) \<and> (r \<in> set rs \<longrightarrow> requires_grad (h r)))"
  by (simp only: undo_flag apply_mask)

text \<open>Undoing on the heap that applying left gives the heap back, aliasing or not.\<close>

lemma undo_apply:
  "undo_gradient_requirements (snd (apply_gradient_requirements h rs)) rs
     (fst (apply_gradient_requirements h rs)) = h"
proof
  fix r
  let ?h' = "undo_gradient_requirements (snd (apply_gradient_requirements h rs)) rs
               (fst (apply_gradient_requirements h rs))"
  have "data (?h' r) = data (h r)"
    by (simp add: undo_data apply_data)
  moreover have "requires_grad (?h' r) = requires_grad (h r)"
    by (auto simp: undo_apply_flag apply_flag)
  ultimately show "?h' r = h r"
    by (simp add: tensor_obj.equality)
qed

subsection \<open>The products\<close>

lemma set_expand: "set (expand s t xs) \<subseteq> set xs"
proof (induction s t xs rule: expand.induct)
  case (1 d ds e es xs)
  have row: "set (expand ds es (take (prod_list ds) (drop (i * prod_list ds) xs))) \<subseteq> set xs"
    if "i < d" for i
  proof -
    have "set (expand ds es (take (prod_list ds) (drop (i * prod_list ds) xs)))
            \<subseteq> set (take (prod_list ds) (drop (i * prod_list ds) xs))"
      using that by (intro "1.IH") auto
    also have "\<dots> \<subseteq> set xs"
      by (meson set_take_subset set_drop_subset subset_trans)
    finally show ?thesis .
  qed
  show ?case
  proof
    fix x assume "x \<in> set (expand (d # ds) (e # es) xs)"
    then obtain i where "i < d"
      and "x \<in> set (expand ds es (take (prod_list ds) (drop (i * prod_list ds) xs)))"
      by (auto simp: Let_def split: if_splits)
    with row show "x \<in> set xs" by blast
  qed
qed auto

lemma fmul_zero: "is_finite x \<Longrightarrow> fmul x (Fin 0) = Fin 0"
  by (cases x) auto

lemma map2_fmul_zero:
  assumes "\<forall>x \<in> set xs. is_finite x" and "\<forall>y \<in> set ys. y = Fin 0"
  shows "\<forall>z \<in> set (map2 fmul xs ys). z = Fin 0"
proof
  fix z assume "z \<in> set (map2 fmul xs ys)"
  then obtain x y where "(x, y) \<in> set (zip xs ys)" and z: "z = fmul x y"
    by auto
  then have "x \<in> set xs" and "y \<in> set ys"
    by (auto dest: set_zip_leftD set_zip_rightD)
  with assms have "is_finite x" and "y = Fin 0" by auto
  then show "z = Fin 0" by (simp add: z fmul_zero)
qed

lemma tensor_mul_zero:
  assumes "tensor_mul a g = Some c" and "all_finite a" and "all_zero g"
  shows "all_zero c"
proof -
  have fin: "\<forall>x \<in> set (expand s t (elems a)). is_finite x" for s t
    using assms(2) set_expand [of s t "elems a"] by (auto simp: all_finite_def list_all_iff)
  have zero: "\<forall>y \<in> set (expand s t (elems g)). y = Fin 0" for s t
    using assms(3) set_expand [of s t "elems g"] by (auto simp: all_zero_def list_all_iff)
  have fin0: "\<forall>x \<in> set (elems a). is_finite x"
    using assms(2) by (simp add: all_finite_def list_all_iff)
  have zero0: "\<forall>y \<in> set (elems g). y = Fin 0"
    using assms(3) by (simp add: all_zero_def list_all_iff)
  show ?thesis
  proof (cases "shape a = shape g")
    case True
    with assms(1) have "elems c = map2 fmul (elems a) (elems g)"
      by (auto simp: tensor_mul_def)
    with map2_fmul_zero [OF fin0 zero0] show ?thesis
      by (simp add: all_zero_def list_all_iff)
  next
    case False
    with assms(1) obtain s where
      "elems c = map2 fmul (expand (pad_shape (length s) (shape a)) s (elems a))
                           (expand (pad_shape (length s) (shape g)) s (elems g))"
      by (auto simp: tensor_mul_def split: option.splits)
    with map2_fmul_zero [OF fin zero] show ?thesis
      by (simp add: all_zero_def list_all_iff)
  qed
qed

lemma tensor_mul_same_shape:
  "shape a = shape g \<Longrightarrow>
     tensor_mul a g = Some \<lparr>shape = shape a, elems = map2 fmul (elems a) (elems g)\<rparr>"
  by (simp add: tensor_mul_def)


lemma tensor_mul_shape:
  "shape a = shape g \<Longrightarrow> tensor_mul a g = Some c \<Longrightarrow> shape c = shape a"
  by (auto simp: tensor_mul_def)

lemma multiply_all_Some:
  "multiply_all ps = Some as \<Longrightarrow> list_all2 (\<lambda>p c. tensor_mul (fst p) (snd p) = Some c) ps as"
  by (induction ps arbitrary: as) (auto split: option.splits)

lemma multiply_all_total:
  "\<forall>p \<in> set ps. tensor_mul (fst p) (snd p) \<noteq> None \<Longrightarrow> multiply_all ps \<noteq> None"
  by (induction ps) (auto split: option.splits)

lemma products_length:
  "products h2 ins grads = Some atts \<Longrightarrow> length atts = min (length ins) (length grads)"
  unfolding products_def by (drule multiply_all_Some) (simp add: list_all2_lengthD [symmetric])

lemma products_nth:
  assumes "products h2 ins grads = Some atts" and "i < length atts"
  shows "tensor_mul (data (h2 (ins ! i))) (grads ! i) = Some (atts ! i)"
proof -
  let ?ps = "zip (map (\<lambda>r. data (h2 r)) ins) grads"
  have all: "list_all2 (\<lambda>p c. tensor_mul (fst p) (snd p) = Some c) ?ps atts"
    using assms(1) unfolding products_def by (rule multiply_all_Some)
  have i: "i < length ins" "i < length grads"
    using products_length [OF assms(1)] assms(2) by simp_all
  then have "i < length ?ps" by simp
  from list_all2_nthD [OF all this] i show ?thesis by simp
qed

lemma products_shape_matched:
  assumes "shape_matched h2 ins grads"
  obtains atts where "products h2 ins grads = Some atts" and "shape_matched h2 ins atts"
proof -
  have len: "length grads = length ins"
    and sh: "\<And>i. i < length ins \<Longrightarrow> shape (grads ! i) = shape (data (h2 (ins ! i)))"
    using assms by (auto simp: shape_matched_def list_all2_conv_all_nth)
  have "\<forall>p \<in> set (zip (map (\<lambda>r. data (h2 r)) ins) grads). tensor_mul (fst p) (snd p) \<noteq> None"
    using len sh by (auto simp: set_zip tensor_mul_same_shape)
  then obtain atts where atts: "products h2 ins grads = Some atts"
    using multiply_all_total unfolding products_def by blast
  have n: "length atts = length ins"
    using products_length [OF atts] len by simp
  have "shape (atts ! i) = shape (data (h2 (ins ! i)))" if "i < length ins" for i
  proof -
    have "tensor_mul (data (h2 (ins ! i))) (grads ! i) = Some (atts ! i)"
      using products_nth [OF atts] that n by simp
    from tensor_mul_shape [OF _ this] sh [OF that] show ?thesis
      by simp
  qed
  with n have "shape_matched h2 ins atts"
    by (simp add: shape_matched_def list_all2_conv_all_nth)
  with atts that show ?thesis by blast
qed

subsection \<open>The three ways a call ends\<close>

lemma attribute_raises:
  "gradient_call gf ff h inputs t a = (Inl e, h2) \<Longrightarrow>
     attribute gf ff h inputs t a =
       \<lparr>returned = Inl e, heap_after = h2\<rparr>"
  by (simp add: attribute_def gradient_call_def Let_def case_prod_beta)

lemma attribute_product_raises:
  "gradient_call gf ff h inputs t a = (Inr grads, h2) \<Longrightarrow>
   products h2 (format_input inputs) grads = None \<Longrightarrow>
     attribute gf ff h inputs t a =
       \<lparr>returned = Inl RuntimeError, heap_after = h2\<rparr>"
  by (simp add: attribute_def gradient_call_def products_def Let_def case_prod_beta)

lemma attribute_multiplied:
  "gradient_call gf ff h inputs t a = (Inr grads, h2) \<Longrightarrow>
   products h2 (format_input inputs) grads = Some atts \<Longrightarrow>
     attribute gf ff h inputs t a =
       \<lparr>returned = format_attributions (is_tuple inputs) atts,
        heap_after = undo_gradient_requirements h2 (format_input inputs)
                       (fst (apply_gradient_requirements h (format_input inputs)))\<rparr>"
  by (simp add: attribute_def gradient_call_def products_def Let_def case_prod_beta)

lemma returned_value:
  fixes gf :: "('f, 't, 'x, 'e) gradient_func"
  assumes "gradient_call gf ff h inputs t a = (Inr grads, h2)"
    and "returned (attribute gf ff h inputs t a) = Inr res"
  obtains atts where "products h2 (format_input inputs) grads = Some atts"
    and "format_attributions (is_tuple inputs) atts = (Inr res :: 'e error + tensor tensor_or_tuple)"
proof (cases "products h2 (format_input inputs) grads")
  case None
  with assms show ?thesis by (simp add: attribute_product_raises)
next
  case (Some atts)
  with assms that show ?thesis by (simp add: attribute_multiplied)
qed

lemma format_attributions_items:
  "format_attributions tup atts = Inr res \<Longrightarrow> is_tuple res = tup \<and> items res = take (if tup then length atts else 1) atts"
  by (cases tup; cases atts) auto

subsection \<open>Broadcasting a shape to itself\<close>

text \<open>
  The product treats two tensors of one shape without broadcasting. For tensors that
  hold as many elements as their shape says, broadcasting gives the same product.
\<close>

lemma broadcast_rev_same: "broadcast_rev s s = Some s"
  by (induction s) simp_all

lemma broadcast_shapes_same: "broadcast_shapes s s = Some s"
  by (simp add: broadcast_shapes_def broadcast_rev_same)

lemma pad_shape_same: "pad_shape (length s) s = s"
  by (simp add: pad_shape_def)

lemma concat_rows:
  "length xs = d * n \<Longrightarrow> concat (map (\<lambda>i. take n (drop (i * n) xs)) [0..<d]) = xs"
proof (induction d arbitrary: xs)
  case 0
  then show ?case by simp
next
  case (Suc d)
  have row: "take n (drop (i * n) (take (d * n) xs)) = take n (drop (i * n) xs)" if "i < d" for i
  proof -
    from that have "Suc i \<le> d" by simp
    then have "Suc i * n \<le> d * n" by (rule mult_le_mono1)
    then have "n \<le> d * n - i * n" by simp
    then show ?thesis by (simp add: drop_take min_absorb1)
  qed
  have "length (take (d * n) xs) = d * n"
    using Suc.prems by simp
  then have "concat (map (\<lambda>i. take n (drop (i * n) (take (d * n) xs))) [0..<d]) = take (d * n) xs"
    by (rule Suc.IH)
  moreover have "map (\<lambda>i. take n (drop (i * n) (take (d * n) xs))) [0..<d]
      = map (\<lambda>i. take n (drop (i * n) xs)) [0..<d]"
    using row by simp
  ultimately have "concat (map (\<lambda>i. take n (drop (i * n) xs)) [0..<d]) = take (d * n) xs"
    by simp
  moreover have "take n (drop (d * n) xs) = drop (d * n) xs"
    using Suc.prems by simp
  ultimately show ?case by simp
qed

lemma expand_same: "length xs = prod_list s \<Longrightarrow> expand s s xs = xs"
proof (induction s arbitrary: xs)
  case Nil
  then show ?case by simp
next
  case (Cons d ds)
  let ?n = "prod_list ds"
  have len: "length xs = d * ?n" using Cons.prems by simp
  have "expand ds ds (take ?n (drop (i * ?n) xs)) = take ?n (drop (i * ?n) xs)" if "i < d" for i
  proof -
    from that have "Suc i \<le> d" by simp
    then have "Suc i * ?n \<le> d * ?n" by (rule mult_le_mono1)
    then have "?n \<le> length xs - i * ?n" using len by simp
    then have "length (take ?n (drop (i * ?n) xs)) = ?n" by simp
    then show ?thesis by (rule Cons.IH)
  qed
  then have "map (\<lambda>i. expand ds ds (take ?n (drop (i * ?n) xs))) [0..<d]
      = map (\<lambda>i. take ?n (drop (i * ?n) xs)) [0..<d]"
    by simp
  then have "concat (map (\<lambda>i. expand ds ds (take ?n (drop (i * ?n) xs))) [0..<d]) = xs"
    by (simp only: concat_rows [OF len])
  then show ?case
    by (simp add: Let_def)
qed

lemma tensor_mul_same_shape_broadcast:
  assumes "shape a = shape g"
    and "length (elems a) = prod_list (shape a)"
    and "length (elems g) = prod_list (shape g)"
  shows "tensor_mul a g
     = map_option
         (\<lambda>s. \<lparr>shape = s,
               elems = map2 fmul (expand (pad_shape (length s) (shape a)) s (elems a))
                                 (expand (pad_shape (length s) (shape g)) s (elems g))\<rparr>)
         (broadcast_shapes (shape a) (shape g))"
  using assms
  by (simp add: tensor_mul_def broadcast_shapes_same pad_shape_same expand_same)

subsection \<open>The three ways the steps end\<close>

lemma steps_raises:
  "gradient_call gf ff h inputs t a = (Inl e, h2) \<Longrightarrow>
     attribute_steps gf ff h inputs t a =
       (Inl e, \<lparr>tensors = h2, entered = take 3 pipeline\<rparr>)"
  by (simp add: attribute_steps_def do_format_input_def do_apply_gradient_requirements_def
        do_gradient_func_def enter_def gradient_call_def pipeline_def Let_def case_prod_beta)

lemma steps_product_raises:
  "gradient_call gf ff h inputs t a = (Inr grads, h2) \<Longrightarrow>
   products h2 (format_input inputs) grads = None \<Longrightarrow>
     attribute_steps gf ff h inputs t a =
       (Inl RuntimeError, \<lparr>tensors = h2, entered = take 4 pipeline\<rparr>)"
  by (simp add: attribute_steps_def do_format_input_def do_apply_gradient_requirements_def
        do_gradient_func_def do_multiply_def enter_def gradient_call_def products_def
        pipeline_def Let_def case_prod_beta)

lemma steps_multiplied:
  "gradient_call gf ff h inputs t a = (Inr grads, h2) \<Longrightarrow>
   products h2 (format_input inputs) grads = Some atts \<Longrightarrow>
     attribute_steps gf ff h inputs t a =
       (format_attributions (is_tuple inputs) atts,
        \<lparr>tensors = undo_gradient_requirements h2 (format_input inputs)
                     (fst (apply_gradient_requirements h (format_input inputs))),
         entered = pipeline\<rparr>)"
  by (simp add: attribute_steps_def do_format_input_def do_apply_gradient_requirements_def
        do_gradient_func_def do_multiply_def do_undo_gradient_requirements_def
        do_format_attributions_def enter_def gradient_call_def products_def
        pipeline_def Let_def case_prod_beta)

subsection \<open>The concrete calls, evaluated\<close>

text \<open>
  From here on the two flag helpers are used through the properties proved above, and
  are not unfolded.
\<close>

declare apply_gradient_requirements.simps [simp del]
declare undo_gradient_requirements.simps [simp del]

lemma example_data [simp]:
  "data (snd (apply_gradient_requirements example_heap rs) r) = vec [1, 2, 3]"
  by (simp add: apply_data example_heap_def)

lemma sum_call:
  "gradient_call sum_gradient_func ff example_heap inputs t a =
     (Inr (map (\<lambda>r. vec [1, 1, 1]) (format_input inputs)),
      snd (apply_gradient_requirements example_heap (format_input inputs)))"
  by (simp add: gradient_call_def sum_gradient_func_def ones_like_def vec_def)

lemma constant_call:
  "gradient_call constant_gradient_func ff example_heap inputs t a =
     (Inr (map (\<lambda>r. vec [0, 0, 0]) (format_input inputs)),
      snd (apply_gradient_requirements example_heap (format_input inputs)))"
  by (simp add: gradient_call_def constant_gradient_func_def zeros_like_def vec_def)

lemma failing_call:
  "gradient_call failing_gradient_func ff h inputs t a =
     (Inl (Other ''target missing''), snd (apply_gradient_requirements h (format_input inputs)))"
  by (simp add: gradient_call_def failing_gradient_func_def)

lemma empty_call:
  "gradient_call empty_gradient_func ff h inputs t a =
     (Inr [], snd (apply_gradient_requirements h (format_input inputs)))"
  by (simp add: gradient_call_def empty_gradient_func_def)

lemma short_call:
  "gradient_call short_gradient_func ff h inputs t a =
     (Inr [vec [1, 1, 1]], snd (apply_gradient_requirements h (format_input inputs)))"
  by (simp add: gradient_call_def short_gradient_func_def)

lemma misshapen_call:
  "gradient_call misshapen_gradient_func ff h inputs t a =
     (Inr [vec [1, 1]], snd (apply_gradient_requirements h (format_input inputs)))"
  by (simp add: gradient_call_def misshapen_gradient_func_def)

lemma vec_times_ones: "tensor_mul (vec [1, 2, 3]) (vec [1, 1, 1]) = Some (vec [1, 2, 3])"
  by (simp add: tensor_mul_def vec_def)

lemma vec_times_zeros: "tensor_mul (vec [1, 2, 3]) (vec [0, 0, 0]) = Some (vec [0, 0, 0])"
  by (simp add: tensor_mul_def vec_def)

lemma vec_times_misshapen: "tensor_mul (vec [1, 2, 3]) (vec [1, 1]) = None"
  by (simp add: tensor_mul_def vec_def broadcast_shapes_def)

lemma example_products_1:
  "products (snd (apply_gradient_requirements example_heap rs)) [r] [vec [1, 1, 1]]
     = Some [vec [1, 2, 3]]"
  by (simp add: products_def vec_times_ones)

lemma example_products_2:
  "products (snd (apply_gradient_requirements example_heap rs)) [r, r'] [vec [1, 1, 1], vec [1, 1, 1]]
     = Some [vec [1, 2, 3], vec [1, 2, 3]]"
  by (simp add: products_def vec_times_ones)

lemma example_products_3:
  "products (snd (apply_gradient_requirements example_heap rs)) [r, r', r'']
       [vec [1, 1, 1], vec [1, 1, 1], vec [1, 1, 1]]
     = Some [vec [1, 2, 3], vec [1, 2, 3], vec [1, 2, 3]]"
  by (simp add: products_def vec_times_ones)

lemma example_products_short:
  "products (snd (apply_gradient_requirements example_heap rs)) [r, r'] [vec [1, 1, 1]]
     = Some [vec [1, 2, 3]]"
  by (simp add: products_def vec_times_ones)

lemma example_products_zero:
  "products (snd (apply_gradient_requirements example_heap rs)) [r] [vec [0, 0, 0]]
     = Some [vec [0, 0, 0]]"
  by (simp add: products_def vec_times_zeros)

lemma example_products_misshapen:
  "products (snd (apply_gradient_requirements example_heap rs)) [r] [vec [1, 1]] = None"
  by (simp add: products_def vec_times_misshapen)

lemma example_products_empty: "products h2 rs [] = Some []"
  by (simp add: products_def)

text \<open>The example of the spec: the attribution of \<open>[1, 2, 3]\<close> under the sum is \<open>[1, 2, 3]\<close>.\<close>

lemma spec_example:
  "returned (attribute sum_gradient_func () example_heap (Single 0) () ()) = Inr (Single (vec [1, 2, 3]))"
  using attribute_multiplied [OF sum_call, of "Single 0" "[vec [1, 2, 3]]" "()" "()" "()"]
  by (simp add: example_products_1)

section \<open>The claims\<close>

subsection \<open>C1: restoring the differentiability flags\<close>

text \<open>
  The claim C1 says that every tensor has after the call the flag it had before it, on
  every exit path, also when the gradient capability raises. The method has no
  \<^verbatim>\<open>try\<close>/\<^verbatim>\<open>finally\<close>: line 86 is reached only when lines 79 to 85 did not raise. Here the
  capability raises, the tensor at reference 0 did not track gradients before the call,
  and it does after it.
\<close>

theorem flags_left_on_counterexample:
  "returned (attribute failing_gradient_func () example_heap (Single 0) () ())
     = Inl (Other ''target missing'')
   \<and> \<not> requires_grad (example_heap 0)
   \<and> requires_grad
       (heap_after (attribute failing_gradient_func () example_heap (Single 0) () ()) 0)"
  by (simp add: attribute_raises [OF failing_call] apply_flag example_heap_def)

text \<open>
  C1, amended: when the gradient capability returns, having left the flags as it found
  them, and the products of lines 83 to 85 are computed, every tensor has after the
  call the flag it had before it, whether the last line then returns or raises, and
  also when a tensor occurs several times among the inputs.
\<close>

theorem flags_restored_after_products:
  assumes "gradient_call gf ff h inputs t a = (Inr grads, h2)"
    and "products h2 (format_input inputs) grads = Some atts"
    and "\<forall>r. requires_grad (h2 r)
           = requires_grad (snd (apply_gradient_requirements h (format_input inputs)) r)"
  shows "\<forall>r. requires_grad (heap_after (attribute gf ff h inputs t a) r) = requires_grad (h r)"
proof
  fix r
  have "requires_grad (heap_after (attribute gf ff h inputs t a) r)
      = (requires_grad (h2 r) \<and> (r \<in> set (format_input inputs) \<longrightarrow> requires_grad (h r)))"
    by (simp add: attribute_multiplied [OF assms(1,2)] undo_apply_flag)
  also have "\<dots> = requires_grad (h r)"
    using assms(3) by (auto simp: apply_flag)
  finally show "requires_grad (heap_after (attribute gf ff h inputs t a) r) = requires_grad (h r)" .
qed

theorem flags_restored_after_products_witness:
  "gradient_call sum_gradient_func () example_heap (Tuple [0, 1, 0]) () ()
     = (Inr [vec [1, 1, 1], vec [1, 1, 1], vec [1, 1, 1]],
        snd (apply_gradient_requirements example_heap [0, 1, 0]))
   \<and> products (snd (apply_gradient_requirements example_heap [0, 1, 0])) [0, 1, 0]
         [vec [1, 1, 1], vec [1, 1, 1], vec [1, 1, 1]]
       = Some [vec [1, 2, 3], vec [1, 2, 3], vec [1, 2, 3]]
   \<and> (\<forall>r. requires_grad
            (heap_after (attribute sum_gradient_func () example_heap (Tuple [0, 1, 0]) () ()) r)
          = requires_grad (example_heap r))"
proof -
  have call: "gradient_call sum_gradient_func () example_heap (Tuple [0, 1, 0]) () ()
     = (Inr [vec [1, 1, 1], vec [1, 1, 1], vec [1, 1, 1]],
        snd (apply_gradient_requirements example_heap (format_input (Tuple [0, 1, 0]))))"
    by (simp add: sum_call)
  have prods: "products (snd (apply_gradient_requirements example_heap (format_input (Tuple [0, 1, 0]))))
         (format_input (Tuple [0, 1, 0])) [vec [1, 1, 1], vec [1, 1, 1], vec [1, 1, 1]]
       = Some [vec [1, 2, 3], vec [1, 2, 3], vec [1, 2, 3]]"
    by (simp add: example_products_3)
  from flags_restored_after_products [OF call prods] call prods show ?thesis
    by simp
qed

subsection \<open>C2: the attribution is the product\<close>



subsection \<open>C3: a single tensor gives a single tensor, a tuple gives a tuple\<close>

text \<open>
  The claim C3 says that a tuple of inputs is answered by a tuple of the same length.
  The zip of line 84 ends with the shorter of the inputs and the gradients: for a tuple
  of two inputs and a capability that returns one gradient, the call returns a tuple
  of one attribution.
\<close>

theorem tuple_shortened_counterexample:
  "returned (attribute short_gradient_func () example_heap (Tuple [0, 1]) () ())
     = Inr (Tuple [vec [1, 2, 3]])
   \<and> length [vec [1, 2, 3]] \<noteq> length [0, 1 :: ref]"
proof -
  have call: "gradient_call short_gradient_func () example_heap (Tuple [0, 1]) () ()
     = (Inr [vec [1, 1, 1]],
        snd (apply_gradient_requirements example_heap (format_input (Tuple [0, 1]))))"
    by (simp add: short_call)
  from attribute_multiplied [OF call, of "[vec [1, 2, 3]]"] show ?thesis
    by (simp add: example_products_short)
qed

text \<open>
  C3, amended: when the call returns a value, a single tensor was answered by a single
  tensor and a tuple, also a tuple of one element, by a tuple; the tuple has as many
  elements as the shorter of the inputs and the gradients, so it has the length of the
  inputs when the capability returned at least one gradient for each input, as its
  contract says.
\<close>

theorem result_mirrors_inputs:
  fixes gf :: "('f, 't, 'x, 'e) gradient_func"
  assumes "gradient_call gf ff h inputs t a = (Inr grads, h2)"
    and "returned (attribute gf ff h inputs t a) = Inr res"
  shows "case inputs of
           Single x \<Rightarrow> (\<exists>y. res = Single y)
         | Tuple xs \<Rightarrow>
             (\<exists>ys. res = Tuple ys
                \<and> length ys = min (length xs) (length grads)
                \<and> (length xs \<le> length grads \<longrightarrow> length ys = length xs))"
proof -
  from assms(1,2) obtain atts where atts: "products h2 (format_input inputs) grads = Some atts"
    and fmt: "format_attributions (is_tuple inputs) atts = (Inr res :: 'e error + tensor tensor_or_tuple)"
    by (rule returned_value)
  have "length atts = min (length (format_input inputs)) (length grads)"
    by (rule products_length [OF atts])
  with fmt show ?thesis
    by (cases inputs; cases atts) auto
qed

theorem result_mirrors_inputs_witness:
  "returned (attribute sum_gradient_func () example_heap (Single 0) () ())
     = Inr (Single (vec [1, 2, 3]))
   \<and> returned (attribute sum_gradient_func () example_heap (Tuple [0]) () ())
       = Inr (Tuple [vec [1, 2, 3]])
   \<and> (\<exists>y. Single (vec [1, 2, 3]) = Single y)
   \<and> length [0::ref] \<le> length [vec [1, 1, 1]]
   \<and> (\<exists>ys. Tuple [vec [1, 2, 3]] = Tuple ys \<and> length ys = length [0::ref])"
proof -
  have call1: "gradient_call sum_gradient_func () example_heap (Single 0) () ()
     = (Inr [vec [1, 1, 1]], snd (apply_gradient_requirements example_heap (format_input (Single 0))))"
    by (simp add: sum_call)
  have callt: "gradient_call sum_gradient_func () example_heap (Tuple [0]) () ()
     = (Inr [vec [1, 1, 1]], snd (apply_gradient_requirements example_heap (format_input (Tuple [0]))))"
    by (simp add: sum_call)
  have rett: "returned (attribute sum_gradient_func () example_heap (Tuple [0]) () ())
       = Inr (Tuple [vec [1, 2, 3]])"
    using attribute_multiplied [OF callt, of "[vec [1, 2, 3]]"]
    by (simp add: example_products_1)
  from result_mirrors_inputs [OF call1 spec_example] result_mirrors_inputs [OF callt rett]
    spec_example rett
  show ?thesis by simp
qed

subsection \<open>C4: failures propagate\<close>

text \<open>
  C4: the method recovers from nothing. The exception that the gradient capability
  raises (its own or one of the forward function) is the exception of the call, as it
  is; so is the one of a product that cannot be computed, and the one of the last
  formatting. In each case the call returns no attribution.
\<close>

theorem failures_propagate:
  "(gradient_call gf ff h inputs t a = (Inl e, h2) \<longrightarrow>
      returned (attribute gf ff h inputs t a) = Inl e)
   \<and> (gradient_call gf ff h inputs t a = (Inr grads, h2)
        \<and> products h2 (format_input inputs) grads = None \<longrightarrow>
      returned (attribute gf ff h inputs t a) = Inl RuntimeError)
   \<and> (gradient_call gf ff h inputs t a = (Inr grads, h2)
        \<and> products h2 (format_input inputs) grads = Some atts
        \<and> format_attributions (is_tuple inputs) atts = Inl err \<longrightarrow>
      returned (attribute gf ff h inputs t a) = Inl err)"
  by (auto simp: attribute_raises attribute_product_raises attribute_multiplied)

theorem failures_propagate_witness:
  "gradient_call failing_gradient_func () example_heap (Single 0) () ()
     = (Inl (Other ''target missing''), snd (apply_gradient_requirements example_heap [0]))
   \<and> returned (attribute failing_gradient_func () example_heap (Single 0) () ())
       = Inl (Other ''target missing'')
   \<and> gradient_call misshapen_gradient_func () example_heap (Single 0) () ()
       = (Inr [vec [1, 1]], snd (apply_gradient_requirements example_heap [0]))
   \<and> products (snd (apply_gradient_requirements example_heap [0])) [0] [vec [1, 1]] = None
   \<and> returned (attribute misshapen_gradient_func () example_heap (Single 0) () ())
       = Inl RuntimeError
   \<and> gradient_call empty_gradient_func () example_heap (Single 0) () ()
       = (Inr [], snd (apply_gradient_requirements example_heap [0]))
   \<and> products (snd (apply_gradient_requirements example_heap [0])) [0] [] = Some []
   \<and> format_attributions False ([] :: tensor list)
       = (Inl IndexError :: string error + tensor tensor_or_tuple)
   \<and> returned (attribute empty_gradient_func () example_heap (Single 0) () ())
       = Inl IndexError"
  using
    failures_propagate [of failing_gradient_func "()" example_heap "Single 0" "()" "()"
      "Other ''target missing''" "snd (apply_gradient_requirements example_heap [0])"]
    failures_propagate [of misshapen_gradient_func "()" example_heap "Single 0" "()" "()"
      _ "snd (apply_gradient_requirements example_heap [0])" "[vec [1, 1]]"]
    failures_propagate [of empty_gradient_func "()" example_heap "Single 0" "()" "()"
      _ "snd (apply_gradient_requirements example_heap [0])" "[]" "[]" IndexError]
  by (simp add: failing_call misshapen_call empty_call example_products_misshapen
        example_products_empty)

subsection \<open>C5: count, order and shapes\<close>

text \<open>
  C5: when the gradient capability honours its contract, one gradient for each input
  and of the shape of that input, the call returns a value of the form of the inputs,
  with one attribution for each input, in the order of the inputs, each of the shape
  of its input.
\<close>

theorem shapes_preserved:
  fixes gf :: "('f, 't, 'x, 'e) gradient_func"
  assumes "gradient_call gf ff h inputs t a = (Inr grads, h2)"
    and "shape_matched h2 (format_input inputs) grads"
  shows "\<exists>res. returned (attribute gf ff h inputs t a) = Inr res
           \<and> is_tuple res = is_tuple inputs
           \<and> shape_matched h2 (format_input inputs) (items res)"
proof -
  from assms(2) obtain atts where atts: "products h2 (format_input inputs) grads = Some atts"
    and sh: "shape_matched h2 (format_input inputs) atts"
    by (rule products_shape_matched)
  have ret: "returned (attribute gf ff h inputs t a) = format_attributions (is_tuple inputs) atts"
    by (simp add: attribute_multiplied [OF assms(1) atts])
  show ?thesis
  proof (cases inputs)
    case (Single x)
    with sh obtain y where "atts = [y]"
      by (auto simp: shape_matched_def list_all2_Cons1)
    with Single sh ret show ?thesis by simp
  next
    case (Tuple xs)
    with sh ret show ?thesis by simp
  qed
qed

theorem shapes_preserved_witness:
  "gradient_call sum_gradient_func () example_heap (Tuple [0, 1]) () ()
     = (Inr [vec [1, 1, 1], vec [1, 1, 1]],
        snd (apply_gradient_requirements example_heap [0, 1]))
   \<and> shape_matched (snd (apply_gradient_requirements example_heap [0, 1])) [0, 1]
         [vec [1, 1, 1], vec [1, 1, 1]]
   \<and> (\<exists>res. returned (attribute sum_gradient_func () example_heap (Tuple [0, 1]) () ())
               = Inr res
          \<and> is_tuple res
          \<and> shape_matched (snd (apply_gradient_requirements example_heap [0, 1])) [0, 1]
               (items res))"
proof -
  have call: "gradient_call sum_gradient_func () example_heap (Tuple [0, 1]) () ()
     = (Inr [vec [1, 1, 1], vec [1, 1, 1]],
        snd (apply_gradient_requirements example_heap (format_input (Tuple [0, 1]))))"
    by (simp add: sum_call)
  have sh: "shape_matched (snd (apply_gradient_requirements example_heap (format_input (Tuple [0, 1]))))
         (format_input (Tuple [0, 1])) [vec [1, 1, 1], vec [1, 1, 1]]"
    by (simp add: shape_matched_def vec_def)
  from shapes_preserved [OF call sh] call sh show ?thesis
    by simp
qed

subsection \<open>C6: the target and the additional arguments are forwarded\<close>

text \<open>
  What a call returns depends on the gradient capability only through its answer to
  the one call of lines 79 to 81.
\<close>

lemma attribute_one_call:
  assumes "gradient_call gf ff h inputs t a = gradient_call gf' ff h inputs t a"
  shows "attribute gf ff h inputs t a = attribute gf' ff h inputs t a"
proof -
  have "gf ff (snd (apply_gradient_requirements h (format_input inputs))) (format_input inputs) t a
      = gf' ff (snd (apply_gradient_requirements h (format_input inputs))) (format_input inputs) t a"
    using assms by (simp add: gradient_call_def)
  then show ?thesis
    unfolding attribute_def Let_def case_prod_beta by (rule arg_cong)
qed

text \<open>
  C6: the mock capability that captures its arguments receives the forward function,
  the formatted inputs, and then the target and the additional arguments of the caller,
  as they are. The heap it receives is the heap of the caller except for the flags of
  the inputs: tracking is switched on for no other tensor, whether or not it is among
  the additional arguments.
\<close>

theorem arguments_forwarded:
  "returned (attribute capturing_gradient_func forward_func h inputs target additional_forward_args)
     = Inl (Other (forward_func,
                   snd (apply_gradient_requirements h (format_input inputs)),
                   format_input inputs, target, additional_forward_args))
   \<and> (\<forall>r. r \<notin> set (format_input inputs) \<longrightarrow>
          snd (apply_gradient_requirements h (format_input inputs)) r = h r)"
  by (simp add: attribute_def capturing_gradient_func_def Let_def case_prod_beta apply_frame)

theorem arguments_forwarded_witness:
  "returned (attribute capturing_gradient_func ''net'' example_heap (Single 0) (4::int) [1::ref])
     = Inl (Other (''net'', snd (apply_gradient_requirements example_heap [0]), [0], 4, [1]))
   \<and> 1 \<notin> set [0::ref]
   \<and> snd (apply_gradient_requirements example_heap [0]) 1 = example_heap 1"
  using arguments_forwarded [of "''net''" example_heap "Single 0" "4::int" "[1::ref]"]
  by simp

subsection \<open>C7: one linear pipeline\<close>

text \<open>
  The claim C7 says that every call runs the six stages, among them the restoring of
  the flags and the formatting of the result. A call in which the gradient capability
  raises ends after the third stage: nothing is multiplied, restored or formatted, and
  the tensor at reference 0, which did not track gradients before the call, is left
  tracking them.
\<close>

theorem steps_cut_counterexample:
  "entered (snd (attribute_steps failing_gradient_func () example_heap (Single 0) () ()))
     = [Format_input, Apply_gradient_requirements, Gradient_func]
   \<and> Undo_gradient_requirements
       \<notin> set (entered (snd (attribute_steps failing_gradient_func () example_heap (Single 0) () ())))
   \<and> \<not> requires_grad (example_heap 0)
   \<and> requires_grad
       (tensors (snd (attribute_steps failing_gradient_func () example_heap (Single 0) () ())) 0)"
  by (simp add: steps_raises [OF failing_call] pipeline_def apply_flag example_heap_def)

text \<open>
  C7, amended: the steps return and leave on the heap what the call does, and every
  call enters an initial part of the one pipeline, in its order and each collaborator
  once, up to the first that raises: the first three when the gradient capability
  raises, the first four when a product raises, all six otherwise. The form of the
  inputs decides nothing on the way: a single tensor and the one-element tuple of it
  enter the same collaborators and leave the same heap.
\<close>

theorem steps_in_order:
  "fst (attribute_steps gf ff h inputs t a) = returned (attribute gf ff h inputs t a)
   \<and> tensors (snd (attribute_steps gf ff h inputs t a)) = heap_after (attribute gf ff h inputs t a)
   \<and> (\<exists>n. entered (snd (attribute_steps gf ff h inputs t a)) = take n pipeline)
   \<and> (gradient_call gf ff h inputs t a = (Inl e, h2) \<longrightarrow>
      entered (snd (attribute_steps gf ff h inputs t a)) = take 3 pipeline)
   \<and> (gradient_call gf ff h inputs t a = (Inr grads, h2)
        \<and> products h2 (format_input inputs) grads = None \<longrightarrow>
      entered (snd (attribute_steps gf ff h inputs t a)) = take 4 pipeline)
   \<and> (gradient_call gf ff h inputs t a = (Inr grads, h2)
        \<and> products h2 (format_input inputs) grads = Some atts \<longrightarrow>
      entered (snd (attribute_steps gf ff h inputs t a)) = pipeline)
   \<and> entered (snd (attribute_steps gf ff h (Single x) t a))
       = entered (snd (attribute_steps gf ff h (Tuple [x]) t a))
   \<and> tensors (snd (attribute_steps gf ff h (Single x) t a))
       = tensors (snd (attribute_steps gf ff h (Tuple [x]) t a))"
proof -
  have run: "fst (attribute_steps gf ff h ins t a) = returned (attribute gf ff h ins t a)
      \<and> tensors (snd (attribute_steps gf ff h ins t a)) = heap_after (attribute gf ff h ins t a)
      \<and> (\<exists>n. entered (snd (attribute_steps gf ff h ins t a)) = take n pipeline)" for ins
  proof (cases "gradient_call gf ff h ins t a")
    case (Pair answer h')
    show ?thesis
    proof (cases answer)
      case (Inl e')
      with Pair have call: "gradient_call gf ff h ins t a = (Inl e', h')" by simp
      have "entered (snd (attribute_steps gf ff h ins t a)) = take 3 pipeline"
        by (simp add: steps_raises [OF call])
      then have "\<exists>n. entered (snd (attribute_steps gf ff h ins t a)) = take n pipeline" ..
      then show ?thesis
        by (simp add: steps_raises [OF call] attribute_raises [OF call])
    next
      case (Inr grads')
      with Pair have call: "gradient_call gf ff h ins t a = (Inr grads', h')" by simp
      show ?thesis
      proof (cases "products h' (format_input ins) grads'")
        case None
        have "entered (snd (attribute_steps gf ff h ins t a)) = take 4 pipeline"
          by (simp add: steps_product_raises [OF call None])
        then have "\<exists>n. entered (snd (attribute_steps gf ff h ins t a)) = take n pipeline" ..
        then show ?thesis
          by (simp add: steps_product_raises [OF call None] attribute_product_raises [OF call None])
      next
        case (Some atts')
        have "entered (snd (attribute_steps gf ff h ins t a)) = take 6 pipeline"
          by (simp add: steps_multiplied [OF call Some] pipeline_def)
        then have "\<exists>n. entered (snd (attribute_steps gf ff h ins t a)) = take n pipeline" ..
        then show ?thesis
          by (simp add: steps_multiplied [OF call Some] attribute_multiplied [OF call Some])
      qed
    qed
  qed
  have same: "entered (snd (attribute_steps gf ff h (Single x) t a))
        = entered (snd (attribute_steps gf ff h (Tuple [x]) t a))
      \<and> tensors (snd (attribute_steps gf ff h (Single x) t a))
        = tensors (snd (attribute_steps gf ff h (Tuple [x]) t a))"
    by (simp add: attribute_steps_def do_format_input_def do_apply_gradient_requirements_def
          do_gradient_func_def do_multiply_def do_undo_gradient_requirements_def
          do_format_attributions_def enter_def Let_def case_prod_beta
          split: sum.splits option.splits)
  from run [of inputs] same show ?thesis
    by (auto simp: steps_raises steps_product_raises steps_multiplied)
qed

theorem steps_in_order_witness:
  "gradient_call failing_gradient_func () example_heap (Single 0) () ()
     = (Inl (Other ''target missing''), snd (apply_gradient_requirements example_heap [0]))
   \<and> entered (snd (attribute_steps failing_gradient_func () example_heap (Single 0) () ()))
       = [Format_input, Apply_gradient_requirements, Gradient_func]
   \<and> gradient_call misshapen_gradient_func () example_heap (Single 0) () ()
       = (Inr [vec [1, 1]], snd (apply_gradient_requirements example_heap [0]))
   \<and> products (snd (apply_gradient_requirements example_heap [0])) [0] [vec [1, 1]] = None
   \<and> entered (snd (attribute_steps misshapen_gradient_func () example_heap (Single 0) () ()))
       = [Format_input, Apply_gradient_requirements, Gradient_func, Multiply]
   \<and> gradient_call sum_gradient_func () example_heap (Single 0) () ()
       = (Inr [vec [1, 1, 1]], snd (apply_gradient_requirements example_heap [0]))
   \<and> products (snd (apply_gradient_requirements example_heap [0])) [0] [vec [1, 1, 1]]
       = Some [vec [1, 2, 3]]
   \<and> entered (snd (attribute_steps sum_gradient_func () example_heap (Single 0) () ()))
       = [Format_input, Apply_gradient_requirements, Gradient_func, Multiply,
          Undo_gradient_requirements, Format_attributions]
   \<and> fst (attribute_steps sum_gradient_func () example_heap (Single 0) () ())
       = Inr (Single (vec [1, 2, 3]))"
  using
    steps_in_order [of failing_gradient_func "()" example_heap "Single 0" "()" "()"
      "Other ''target missing''" "snd (apply_gradient_requirements example_heap [0])" "[]" "[]" 1]
    steps_in_order [of misshapen_gradient_func "()" example_heap "Single 0" "()" "()"
      "Other []" "snd (apply_gradient_requirements example_heap [0])" "[vec [1, 1]]" "[]" 1]
    steps_in_order [of sum_gradient_func "()" example_heap "Single 0" "()" "()"
      "Other []" "snd (apply_gradient_requirements example_heap [0])" "[vec [1, 1, 1]]"
      "[vec [1, 2, 3]]" 1]
  by (simp add: failing_call misshapen_call sum_call example_products_misshapen
        example_products_1 pipeline_def spec_example)

subsection \<open>C8: a zero gradient\<close>

text \<open>
  The claim C8 says that an all-zero gradient gives an all-zero attribution whatever
  the input holds. The product of an infinity and zero is NaN: here the forward
  function is constant, the gradient is zero, the input holds an infinity, and the
  attribution is NaN.
\<close>

theorem zero_gradient_counterexample:
  "gradient_call constant_gradient_func () infinite_heap (Single 0) () ()
     = (Inr [\<lparr>shape = [1], elems = [Fin 0]\<rparr>], snd (apply_gradient_requirements infinite_heap [0]))
   \<and> all_zero \<lparr>shape = [1], elems = [Fin 0]\<rparr>
   \<and> returned (attribute constant_gradient_func () infinite_heap (Single 0) () ())
       = Inr (Single \<lparr>shape = [1], elems = [NaN]\<rparr>)
   \<and> \<not> all_zero \<lparr>shape = [1], elems = [NaN]\<rparr>"
proof -
  have call: "gradient_call constant_gradient_func () infinite_heap (Single 0) () ()
     = (Inr [\<lparr>shape = [1], elems = [Fin 0]\<rparr>],
        snd (apply_gradient_requirements infinite_heap (format_input (Single 0))))"
    by (simp add: gradient_call_def constant_gradient_func_def zeros_like_def apply_data
          infinite_heap_def)
  have prods: "products (snd (apply_gradient_requirements infinite_heap (format_input (Single 0))))
         (format_input (Single 0)) [\<lparr>shape = [1], elems = [Fin 0]\<rparr>]
       = Some [\<lparr>shape = [1], elems = [NaN]\<rparr>]"
    by (simp add: products_def apply_data infinite_heap_def tensor_mul_def)
  from attribute_multiplied [OF call prods] call show ?thesis
    by (simp add: all_zero_def)
qed

text \<open>
  C8, amended: when the gradient at position \<open>i\<close> is all zero and the input at \<open>i\<close>
  holds finite values only, the attribution at \<open>i\<close> is all zero, whatever these finite
  values are.
\<close>

theorem zero_gradient_zero_attribution:
  fixes gf :: "('f, 't, 'x, 'e) gradient_func"
  assumes "gradient_call gf ff h inputs t a = (Inr grads, h2)"
    and "returned (attribute gf ff h inputs t a) = Inr res"
    and "i < length (items res)"
    and "all_zero (grads ! i)"
    and "all_finite (data (h2 (format_input inputs ! i)))"
  shows "all_zero (items res ! i)"
proof -
  from assms(1,2) obtain atts where atts: "products h2 (format_input inputs) grads = Some atts"
    and fmt: "format_attributions (is_tuple inputs) atts = (Inr res :: 'e error + tensor tensor_or_tuple)"
    by (rule returned_value)
  from format_attributions_items [OF fmt]
  have "items res = take (if is_tuple inputs then length atts else 1) atts" by simp
  with assms(3) have "i < length atts" and "items res ! i = atts ! i" by simp_all
  with products_nth [OF atts]
  have "tensor_mul (data (h2 (format_input inputs ! i))) (grads ! i) = Some (items res ! i)"
    by simp
  from tensor_mul_zero [OF this assms(5,4)] show ?thesis .
qed

theorem zero_gradient_zero_attribution_witness:
  "gradient_call constant_gradient_func () example_heap (Single 0) () ()
     = (Inr [vec [0, 0, 0]], snd (apply_gradient_requirements example_heap [0]))
   \<and> returned (attribute constant_gradient_func () example_heap (Single 0) () ())
       = Inr (Single (vec [0, 0, 0]))
   \<and> all_zero (vec [0, 0, 0])
   \<and> all_finite (vec [1, 2, 3])"
proof -
  have call: "gradient_call constant_gradient_func () example_heap (Single 0) () ()
     = (Inr [vec [0, 0, 0]], snd (apply_gradient_requirements example_heap (format_input (Single 0))))"
    by (simp add: constant_call)
  have ret: "returned (attribute constant_gradient_func () example_heap (Single 0) () ())
       = Inr (Single (vec [0, 0, 0]))"
    using attribute_multiplied [OF call, of "[vec [0, 0, 0]]"]
    by (simp add: example_products_zero)
  have zero: "all_zero ([vec [0, 0, 0]] ! 0)"
    by (simp add: all_zero_def vec_def)
  have fin: "all_finite (data (snd (apply_gradient_requirements example_heap (format_input (Single 0)))
               (format_input (Single 0) ! 0)))"
    by (simp add: all_finite_def vec_def)
  from zero_gradient_zero_attribution [OF call ret _ zero fin] call ret zero fin show ?thesis
    by simp
qed

subsection \<open>C9: nothing but the flags is touched\<close>

text \<open>
  C9: the method itself writes nothing but flags of inputs: the heap that it passes to
  the gradient capability holds the data of the caller at every reference, and is the
  heap of the caller at every reference that is not an input. When the capability
  returns and leaves that heap as it is, and the call returns a value, the heap after
  the call is the heap before it, data and flags; the attributions are values of their
  own.
\<close>

theorem heap_unchanged_on_success:
  fixes gf :: "('f, 't, 'x, 'e) gradient_func"
  assumes "gradient_call gf ff h inputs t a
             = (Inr grads, snd (apply_gradient_requirements h (format_input inputs)))"
    and "returned (attribute gf ff h inputs t a) = Inr res"
  shows "heap_after (attribute gf ff h inputs t a) = h
         \<and> (\<forall>r. data (snd (apply_gradient_requirements h (format_input inputs)) r) = data (h r))
         \<and> (\<forall>r. r \<notin> set (format_input inputs) \<longrightarrow>
                snd (apply_gradient_requirements h (format_input inputs)) r = h r)"
proof -
  from assms obtain atts where
    "products (snd (apply_gradient_requirements h (format_input inputs))) (format_input inputs) grads
       = Some atts"
    by (rule returned_value)
  from attribute_multiplied [OF assms(1) this] show ?thesis
    by (simp add: undo_apply apply_data apply_frame)
qed

theorem heap_unchanged_on_success_witness:
  "gradient_call sum_gradient_func () example_heap (Tuple [0, 1, 0]) () ()
     = (Inr [vec [1, 1, 1], vec [1, 1, 1], vec [1, 1, 1]],
        snd (apply_gradient_requirements example_heap [0, 1, 0]))
   \<and> returned (attribute sum_gradient_func () example_heap (Tuple [0, 1, 0]) () ())
       = Inr (Tuple [vec [1, 2, 3], vec [1, 2, 3], vec [1, 2, 3]])
   \<and> heap_after (attribute sum_gradient_func () example_heap (Tuple [0, 1, 0]) () ())
       = example_heap
   \<and> 2 \<notin> set [0, 1, 0 :: ref]
   \<and> snd (apply_gradient_requirements example_heap [0, 1, 0]) 2 = example_heap 2"
proof -
  have call: "gradient_call sum_gradient_func () example_heap (Tuple [0, 1, 0]) () ()
     = (Inr [vec [1, 1, 1], vec [1, 1, 1], vec [1, 1, 1]],
        snd (apply_gradient_requirements example_heap (format_input (Tuple [0, 1, 0]))))"
    by (simp add: sum_call)
  have ret: "returned (attribute sum_gradient_func () example_heap (Tuple [0, 1, 0]) () ())
       = Inr (Tuple [vec [1, 2, 3], vec [1, 2, 3], vec [1, 2, 3]])"
    using attribute_multiplied [OF call, of "[vec [1, 2, 3], vec [1, 2, 3], vec [1, 2, 3]]"]
    by (simp add: example_products_3)
  from heap_unchanged_on_success [OF call ret] call ret show ?thesis
    by simp
qed

subsection \<open>C10: fewer or more gradients than inputs\<close>

text \<open>
  The claim C10 says that a gradient collection of another length than the inputs
  raises no error. For a single tensor and a capability that returns no gradient, the
  zip is empty, there is no attribution to return as the single result, and the last
  line raises.
\<close>

theorem no_gradient_counterexample:
  "gradient_call empty_gradient_func () example_heap (Single 0) () ()
     = (Inr [], snd (apply_gradient_requirements example_heap [0]))
   \<and> length ([] :: tensor list) \<noteq> length (format_input (Single (0::ref)))
   \<and> returned (attribute empty_gradient_func () example_heap (Single 0) () ())
       = Inl IndexError"
proof -
  have call: "gradient_call empty_gradient_func () example_heap (Single 0) () ()
     = (Inr [], snd (apply_gradient_requirements example_heap (format_input (Single 0))))"
    by (simp add: empty_call)
  from attribute_multiplied [OF call example_products_empty] call show ?thesis
    by simp
qed

text \<open>
  C10, amended: whatever the number of gradients that the capability returns, when the
  products of the pairs of the zip are computed, and the inputs are a tuple or there is
  at least one gradient, the call raises no error and returns as many attributions as
  the shorter of the two collections has elements.
\<close>

theorem truncated_to_shorter:
  fixes gf :: "('f, 't, 'x, 'e) gradient_func"
  assumes "gradient_call gf ff h inputs t a = (Inr grads, h2)"
    and "products h2 (format_input inputs) grads = Some atts"
    and "is_tuple inputs \<or> grads \<noteq> []"
  shows "\<exists>res. returned (attribute gf ff h inputs t a) = Inr res
           \<and> length (items res) = min (length (format_input inputs)) (length grads)"
proof -
  have ret: "returned (attribute gf ff h inputs t a) = format_attributions (is_tuple inputs) atts"
    by (simp add: attribute_multiplied [OF assms(1,2)])
  have len: "length atts = min (length (format_input inputs)) (length grads)"
    by (rule products_length [OF assms(2)])
  show ?thesis
  proof (cases inputs)
    case (Single x)
    with assms(3) len obtain y where "atts = [y]"
      by (cases atts; cases grads) auto
    with Single len ret show ?thesis by auto
  next
    case (Tuple xs)
    with len ret show ?thesis by simp
  qed
qed

theorem truncated_to_shorter_witness:
  "gradient_call short_gradient_func () example_heap (Tuple [0, 1]) () ()
     = (Inr [vec [1, 1, 1]], snd (apply_gradient_requirements example_heap [0, 1]))
   \<and> length [vec [1, 1, 1]] \<noteq> length [0, 1 :: ref]
   \<and> products (snd (apply_gradient_requirements example_heap [0, 1])) [0, 1] [vec [1, 1, 1]]
       = Some [vec [1, 2, 3]]
   \<and> is_tuple (Tuple [0, 1 :: ref])
   \<and> (\<exists>res. returned (attribute short_gradient_func () example_heap (Tuple [0, 1]) () ())
               = Inr res
          \<and> length (items res) = 1)"
proof -
  have call: "gradient_call short_gradient_func () example_heap (Tuple [0, 1]) () ()
     = (Inr [vec [1, 1, 1]],
        snd (apply_gradient_requirements example_heap (format_input (Tuple [0, 1]))))"
    by (simp add: short_call)
  have prods: "products (snd (apply_gradient_requirements example_heap (format_input (Tuple [0, 1]))))
         (format_input (Tuple [0, 1])) [vec [1, 1, 1]] = Some [vec [1, 2, 3]]"
    by (simp add: example_products_short)
  from truncated_to_shorter [OF call prods] call prods show ?thesis
    by simp
qed

end
